theory Spec2Isabelle
  imports Complex_Main
begin

section \<open>Shared browser environment\<close>

text \<open>
  The dashboard pages are React function components.  Each page keeps its own
  \<^verbatim>\<open>useState\<close> cells and shares with the others only what lives in the browser:
  \<^verbatim>\<open>localStorage\<close> (the keys \<^verbatim>\<open>auth_token\<close> and \<^verbatim>\<open>user\<close>), the router
  location, the toast queue, the clipboard and the network.  The network is a log
  of the calls made on \<^verbatim>\<open>api\<close>, oldest first; the position of a call in the log
  is its request number, and \<open>settled\<close> lists the requests whose promise has
  already resolved or rejected.
\<close>

record params =
  p_page :: int
  p_limit :: int
  p_search :: "string option"
  p_filter :: "string option"

datatype api_call =
    GetTransactions params
  | GetApiKeys
  | CreateApiKey string
  | DeleteApiKey string
  | GetSettings
  | UpdateSettings string string string

record toast =
  title :: string
  description :: string
  destructive :: bool

record browser =
  auth_token :: "string option"
  user :: "string option"
  location :: string
  toasts :: "toast list"
  clipboard :: "string option"
  calls :: "api_call list"
  settled :: "nat list"

text \<open>
  An awaited promise either resolves with a payload or rejects with an error
  whose \<^verbatim>\<open>message\<close> may be undefined.
\<close>

datatype 'a response = Resolved 'a | Rejected "string option"

text \<open>\<^verbatim>\<open>String.prototype.includes\<close>: the pattern occurs as a contiguous substring.\<close>

fun str_includes :: "string \<Rightarrow> string \<Rightarrow> bool" where
  "str_includes [] pat = (pat = [])"
| "str_includes (c # cs) pat = (take (length pat) (c # cs) = pat \<or> str_includes cs pat)"

text \<open>
  The test every load handler makes in its \<^verbatim>\<open>catch\<close>:
  \<^verbatim>\<open>err.message?.includes("401") || err.message?.includes("Unauthorized")\<close>.
\<close>

definition unauthorized :: "string option \<Rightarrow> bool" where
  "unauthorized m =
     (case m of None \<Rightarrow> False
      | Some msg \<Rightarrow> str_includes msg ''401'' \<or> str_includes msg ''Unauthorized'')"

text \<open>\<^verbatim>\<open>err.message || fallback\<close>: an undefined or empty message gives the fallback.\<close>

definition message_or :: "string option \<Rightarrow> string \<Rightarrow> string" where
  "message_or m fallback =
     (case m of None \<Rightarrow> fallback | Some msg \<Rightarrow> if msg = [] then fallback else msg)"

text \<open>A \<^verbatim>\<open>string | null\<close> used as a condition: null and the empty string are falsy.\<close>

definition truthy :: "string option \<Rightarrow> bool" where
  "truthy v = (case v of None \<Rightarrow> False | Some t \<Rightarrow> t \<noteq> [])"

text \<open>
  The three statements of the unauthorized branch:
  \<^verbatim>\<open>localStorage.removeItem("auth_token"); localStorage.removeItem("user"); setLocation("/login")\<close>.
\<close>

definition logout :: "'a browser_scheme \<Rightarrow> 'a browser_scheme" where
  "logout b = b\<lparr>auth_token := None, user := None, location := ''/login''\<rparr>"

definition pending :: "nat \<Rightarrow> 'a browser_scheme \<Rightarrow> bool" where
  "pending k b = (k < length (calls b) \<and> k \<notin> set (settled b))"

section \<open>Transactions page\<close>

record transaction =
  id_tx :: string
  tx_type :: string
  amount :: string
  currency :: string
  status_tx :: string
  created_at_tx :: string
  customer_email :: "string option"

text \<open>The payload of \<^verbatim>\<open>api.getTransactions\<close>: \<^verbatim>\<open>data.transactions\<close> and \<^verbatim>\<open>data.total\<close>.\<close>

record tx_data =
  d_transactions :: "transaction list"
  d_total :: int

record tx_state = browser +
  transactions :: "transaction list"
  loading_tx :: bool
  error_tx :: "string option"
  search :: string
  filter_tx :: string
  page :: int
  total_tx :: int

text \<open>
  The request parameters are built from the values the handler's closure holds, that is
  from the render in which \<^verbatim>\<open>loadTransactions\<close> was created.
\<close>

definition mk_params :: "tx_state \<Rightarrow> params" where
  "mk_params r =
     \<lparr>p_page = page r, p_limit = 10,
      p_search = (if search r \<noteq> [] then Some (search r) else None),
      p_filter = (if filter_tx r \<noteq> ''all'' then Some (filter_tx r) else None)\<rparr>"

text \<open>
  \<^verbatim>\<open>loadTransactions\<close> up to its \<^verbatim>\<open>await\<close>.  The first argument is the render whose
  closure is running (what the function reads), the second the state the setters act on.
\<close>

definition loadTransactions_begin :: "tx_state \<Rightarrow> tx_state \<Rightarrow> tx_state" where
  "loadTransactions_begin r s =
     s\<lparr>loading_tx := True, error_tx := None,
       calls := calls s @ [GetTransactions (mk_params r)]\<rparr>"

text \<open>
  \<^verbatim>\<open>loadTransactions\<close> after its \<^verbatim>\<open>await\<close>: the \<^verbatim>\<open>try\<close> continuation, the
  \<^verbatim>\<open>catch\<close> and the \<^verbatim>\<open>finally\<close>.  Nothing here looks at which request the
  response belongs to.
\<close>

definition loadTransactions_settle :: "tx_data response \<Rightarrow> tx_state \<Rightarrow> tx_state" where
  "loadTransactions_settle resp s =
     (case resp of
        Resolved d \<Rightarrow>
          s\<lparr>transactions := d_transactions d, total_tx := d_total d, loading_tx := False\<rparr>
      | Rejected m \<Rightarrow>
          if unauthorized m then (logout s)\<lparr>loading_tx := False\<rparr>
          else s\<lparr>error_tx := Some (message_or m ''Failed to load transactions''),
                 loading_tx := False\<rparr>)"

text \<open>
  \<^verbatim>\<open>useEffect(() => { loadTransactions(); }, [page, filter])\<close>: after the render that
  follows a handler, the effect runs when \<open>page\<close> or \<open>filter\<close> differ from the previous
  render, with the closure of the new render.
\<close>

definition after_render :: "tx_state \<Rightarrow> tx_state \<Rightarrow> tx_state" where
  "after_render old new =
     (if page new \<noteq> page old \<or> filter_tx new \<noteq> filter_tx old
      then loadTransactions_begin new new else new)"

text \<open>\<^verbatim>\<open>handleSearch\<close>: \<^verbatim>\<open>setPage(1); loadTransactions();\<close> in the closure of the current render.\<close>

definition handleSearch :: "tx_state \<Rightarrow> tx_state" where
  "handleSearch s = after_render s (loadTransactions_begin s (s\<lparr>page := 1\<rparr>))"

text \<open>
  The pagination row is inside the last branch of
  \<^verbatim>\<open>loading ? ... : error ? ... : transactions.length === 0 ? ... : ...\<close>.
\<close>

definition pagination_shown :: "tx_state \<Rightarrow> bool" where
  "pagination_shown s = (\<not> loading_tx s \<and> \<not> truthy (error_tx s) \<and> transactions s \<noteq> [])"

definition retry_shown :: "tx_state \<Rightarrow> bool" where
  "retry_shown s = (\<not> loading_tx s \<and> truthy (error_tx s))"

text \<open>
  The Next button: \<^verbatim>\<open>onClick={() => setPage((p) => p + 1)}\<close>,
  \<^verbatim>\<open>disabled={transactions.length < 10}\<close>.
\<close>

definition clickNext :: "tx_state \<Rightarrow> tx_state" where
  "clickNext s =
     (if pagination_shown s \<and> \<not> length (transactions s) < 10
      then after_render s (s\<lparr>page := page s + 1\<rparr>) else s)"

text \<open>
  The Previous button: \<^verbatim>\<open>onClick={() => setPage((p) => Math.max(1, p - 1))}\<close>,
  \<^verbatim>\<open>disabled={page === 1}\<close>.
\<close>

definition clickPrevious :: "tx_state \<Rightarrow> tx_state" where
  "clickPrevious s =
     (if pagination_shown s \<and> page s \<noteq> 1
      then after_render s (s\<lparr>page := max 1 (page s - 1)\<rparr>) else s)"

text \<open>The search box (\<^verbatim>\<open>onChange\<close>) and the status select (\<^verbatim>\<open>onValueChange={setFilter}\<close>).\<close>

definition changeSearch :: "string \<Rightarrow> tx_state \<Rightarrow> tx_state" where
  "changeSearch text s = after_render s (s\<lparr>search := text\<rparr>)"

definition changeFilter :: "string \<Rightarrow> tx_state \<Rightarrow> tx_state" where
  "changeFilter f s = after_render s (s\<lparr>filter_tx := f\<rparr>)"

definition clickRetry :: "tx_state \<Rightarrow> tx_state" where
  "clickRetry s = (if retry_shown s then after_render s (loadTransactions_begin s s) else s)"

text \<open>
  What can happen to a mounted page: a user action, or the promise of request \<open>k\<close>
  settling.  A handler runs to its end on the values of the render that created it, the
  updates of its setters are applied together, and the effect follows the next render.
  A response is delivered only for a request that is in flight.  After the redirect to
  the login view the page is unmounted and nothing more happens to it; the traces below
  do not stop there, which only adds behaviours.
\<close>

datatype tx_event =
    ChangeSearch string
  | ChangeFilter string
  | SubmitSearch
  | ClickPrevious
  | ClickNext
  | ClickRetry
  | Settle nat "tx_data response"

fun tx_step :: "tx_event \<Rightarrow> tx_state \<Rightarrow> tx_state" where
  "tx_step (ChangeSearch text) s = changeSearch text s"
| "tx_step (ChangeFilter f) s = changeFilter f s"
| "tx_step SubmitSearch s = handleSearch s"
| "tx_step ClickPrevious s = clickPrevious s"
| "tx_step ClickNext s = clickNext s"
| "tx_step ClickRetry s = clickRetry s"
| "tx_step (Settle k resp) s =
     (if pending k s
      then after_render s (loadTransactions_settle resp (s\<lparr>settled := settled s @ [k]\<rparr>))
      else s)"

fun tx_run :: "tx_event list \<Rightarrow> tx_state \<Rightarrow> tx_state" where
  "tx_run [] s = s"
| "tx_run (e # es) s = tx_run es (tx_step e s)"

text \<open>
  The page after mounting in browser \<open>b\<close>: the initial \<^verbatim>\<open>useState\<close> values, and the
  effect has run once.
\<close>

definition tx_unmounted :: "browser \<Rightarrow> tx_state" where
  "tx_unmounted b =
     \<lparr>auth_token = auth_token b, user = user b, location = location b,
      toasts = toasts b, clipboard = clipboard b, calls = calls b, settled = settled b,
      transactions = [], loading_tx = True, error_tx = None, search = [],
      filter_tx = ''all'', page = 1, total_tx = 0\<rparr>"

definition tx_mount :: "browser \<Rightarrow> tx_state" where
  "tx_mount b = loadTransactions_begin (tx_unmounted b) (tx_unmounted b)"

text \<open>What the table and the counter below it show.\<close>

definition shown :: "tx_state \<Rightarrow> transaction list \<times> int" where
  "shown s = (transactions s, total_tx s)"

text \<open>The payload of the last response in a trace that resolved, if there is one.\<close>

fun last_resolved :: "tx_event list \<Rightarrow> (transaction list \<times> int) option" where
  "last_resolved [] = None"
| "last_resolved (e # es) =
     (case last_resolved es of
        Some p \<Rightarrow> Some p
      | None \<Rightarrow> (case e of Settle k (Resolved d) \<Rightarrow> Some (d_transactions d, d_total d)
                 | _ \<Rightarrow> None))"

text \<open>A trace is deliverable when each response it delivers is for a request in flight.\<close>

fun deliverable :: "tx_event list \<Rightarrow> tx_state \<Rightarrow> bool" where
  "deliverable [] s = True"
| "deliverable (e # es) s =
     ((case e of Settle k resp \<Rightarrow> pending k s | _ \<Rightarrow> True) \<and> deliverable es (tx_step e s))"

text \<open>Example data for the Transactions page.\<close>

definition browser0 :: browser where
  "browser0 =
     \<lparr>auth_token = Some ''token'', user = Some ''alice'', location = ''/dashboard'',
      toasts = [], clipboard = None, calls = [], settled = []\<rparr>"

definition tx0 :: transaction where
  "tx0 =
     \<lparr>id_tx = ''tx-0001'', tx_type = ''payment'', amount = ''12.50'', currency = ''USD'',
      status_tx = ''pending'', created_at_tx = ''2024-01-01'', customer_email = None\<rparr>"

definition all_page :: tx_data where
  "all_page = \<lparr>d_transactions = [tx0], d_total = 1\<rparr>"

definition settled_page :: tx_data where
  "settled_page = \<lparr>d_transactions = [], d_total = 0\<rparr>"

definition full_page :: tx_data where
  "full_page = \<lparr>d_transactions = replicate 10 tx0, d_total = 25\<rparr>"

text \<open>A page that has loaded two full pages and stands on page 3, the third still loading.\<close>

definition on_page3 :: tx_state where
  "on_page3 =
     tx_run [Settle 0 (Resolved full_page), ClickNext, Settle 1 (Resolved full_page), ClickNext]
       (tx_mount browser0)"

definition at_page3 :: tx_state where
  "at_page3 = tx_step (Settle 2 (Resolved full_page)) on_page3"


section \<open>API keys page\<close>

record apikey =
  id_key :: string
  name_key :: string
  key_prefix :: string
  created_at_key :: string
  last_used :: "string option"
  permissions :: "string list"
  status_key :: string

text \<open>
  The payload of \<^verbatim>\<open>api.createApiKey\<close>: the key's fields and, once, \<^verbatim>\<open>secret_key\<close>.
  The page reads only \<^verbatim>\<open>result.secret_key\<close>.
\<close>

record created_key = apikey +
  secret_key :: string

record keys_state = browser +
  keys :: "apikey list"
  loading_keys :: bool
  error_keys :: "string option"
  isCreateDialogOpen :: bool
  newKeyName :: string
  createdKey :: "string option"
  showCreatedKey :: bool
  creating :: bool

text \<open>
  \<^verbatim>\<open>String.prototype.trim\<close> on the ASCII white space and line terminators (tab, line
  feed, vertical tab, form feed, carriage return, space).
\<close>

definition is_space :: "char \<Rightarrow> bool" where
  "is_space c = (c \<in> set [CHR 0x09, CHR 0x0A, CHR 0x0B, CHR 0x0C, CHR 0x0D, CHR 0x20])"

definition trim :: "string \<Rightarrow> string" where
  "trim t = rev (dropWhile is_space (rev (dropWhile is_space t)))"

definition notify :: "string \<Rightarrow> string \<Rightarrow> bool \<Rightarrow> 'a browser_scheme \<Rightarrow> 'a browser_scheme" where
  "notify ttl descr destr b =
     b\<lparr>toasts := toasts b @ [\<lparr>title = ttl, description = descr, destructive = destr\<rparr>]\<rparr>"

text \<open>\<^verbatim>\<open>loadApiKeys\<close> up to its \<^verbatim>\<open>await\<close>, and from there on.\<close>

definition loadApiKeys_begin :: "keys_state \<Rightarrow> keys_state" where
  "loadApiKeys_begin s =
     s\<lparr>loading_keys := True, error_keys := None, calls := calls s @ [GetApiKeys]\<rparr>"

definition loadApiKeys_settle :: "apikey list response \<Rightarrow> keys_state \<Rightarrow> keys_state" where
  "loadApiKeys_settle resp s =
     (case resp of
        Resolved data \<Rightarrow> s\<lparr>keys := data, loading_keys := False\<rparr>
      | Rejected m \<Rightarrow>
          if unauthorized m then (logout s)\<lparr>loading_keys := False\<rparr>
          else s\<lparr>error_keys := Some (message_or m ''Failed to load API keys''),
                 loading_keys := False\<rparr>)"

text \<open>
  \<^verbatim>\<open>handleCreateKey\<close> in its three stretches: up to \<^verbatim>\<open>await api.createApiKey\<close>, from
  there to \<^verbatim>\<open>await loadApiKeys()\<close> (or through \<^verbatim>\<open>catch\<close> and \<^verbatim>\<open>finally\<close>), and the
  rest.  \<^verbatim>\<open>loadApiKeys\<close> catches its own errors, so the last stretch always reaches the
  success toast.
\<close>

definition handleCreateKey_begin :: "keys_state \<Rightarrow> keys_state" where
  "handleCreateKey_begin s =
     (if trim (newKeyName s) = []
      then notify ''Error'' ''Please enter a key name'' True s
      else s\<lparr>creating := True, calls := calls s @ [CreateApiKey (trim (newKeyName s))]\<rparr>)"

definition handleCreateKey_created :: "created_key response \<Rightarrow> keys_state \<Rightarrow> keys_state" where
  "handleCreateKey_created resp s =
     (case resp of
        Resolved result \<Rightarrow>
          loadApiKeys_begin
            (s\<lparr>createdKey := Some (secret_key result), showCreatedKey := True, newKeyName := []\<rparr>)
      | Rejected m \<Rightarrow>
          (notify ''Error'' (message_or m ''Failed to create API key'') True s)
            \<lparr>creating := False\<rparr>)"

definition handleCreateKey_reloaded :: "apikey list response \<Rightarrow> keys_state \<Rightarrow> keys_state" where
  "handleCreateKey_reloaded resp s =
     (notify ''Success'' ''API key created successfully'' False (loadApiKeys_settle resp s))
       \<lparr>creating := False\<rparr>"

text \<open>
  \<^verbatim>\<open>handleDeleteKey\<close>.  \<open>confirm\<close> is the browser's prompt: the user's answer to the
  message shown.
\<close>

definition delete_prompt :: "string \<Rightarrow> string" where
  "delete_prompt keyName =
     ''Are you sure you want to delete '' @ [CHR 0x22] @ keyName @ [CHR 0x22] @
     ''? This action cannot be undone.''"

definition handleDeleteKey_begin ::
    "(string \<Rightarrow> bool) \<Rightarrow> string \<Rightarrow> string \<Rightarrow> keys_state \<Rightarrow> keys_state" where
  "handleDeleteKey_begin confirm keyId keyName s =
     (if \<not> confirm (delete_prompt keyName) then s
      else s\<lparr>calls := calls s @ [DeleteApiKey keyId]\<rparr>)"

definition handleDeleteKey_deleted :: "unit response \<Rightarrow> keys_state \<Rightarrow> keys_state" where
  "handleDeleteKey_deleted resp s =
     (case resp of
        Resolved _ \<Rightarrow> loadApiKeys_begin s
      | Rejected m \<Rightarrow> notify ''Error'' (message_or m ''Failed to delete API key'') True s)"

definition handleDeleteKey_reloaded :: "apikey list response \<Rightarrow> keys_state \<Rightarrow> keys_state" where
  "handleDeleteKey_reloaded resp s =
     notify ''Success'' ''API key deleted successfully'' False (loadApiKeys_settle resp s)"

definition copyToClipboard :: "string \<Rightarrow> keys_state \<Rightarrow> keys_state" where
  "copyToClipboard text s =
     notify ''Copied'' ''API key copied to clipboard'' False (s\<lparr>clipboard := Some text\<rparr>)"

definition handleCloseCreatedKeyDialog :: "keys_state \<Rightarrow> keys_state" where
  "handleCloseCreatedKeyDialog s =
     s\<lparr>showCreatedKey := False, createdKey := None, isCreateDialogOpen := False\<rparr>"

text \<open>
  What can happen to the mounted page.  The buttons act only where the markup renders and
  enables them: Create inside the open create dialog and not while \<open>creating\<close>, Copy and
  Done inside the reveal dialog, the delete icons and Retry in their branches of
  \<^verbatim>\<open>loading ? ... : error ? ... : keys.length === 0 ? ... : ...\<close>.  The continuations
  of the awaited calls are delivered in any order.
\<close>

datatype keys_event =
    ChangeName string
  | SetCreateDialog bool
  | ClickCreate
  | CreateSettled "created_key response"
  | CreateReloaded "apikey list response"
  | ClickDelete nat bool
  | DeleteSettled "unit response"
  | DeleteReloaded "apikey list response"
  | LoadSettled "apikey list response"
  | RetryLoad
  | ClickCopy
  | CloseReveal

fun keys_step :: "keys_event \<Rightarrow> keys_state \<Rightarrow> keys_state" where
  "keys_step (ChangeName text) s = s\<lparr>newKeyName := text\<rparr>"
| "keys_step (SetCreateDialog b) s = s\<lparr>isCreateDialogOpen := b\<rparr>"
| "keys_step ClickCreate s =
     (if isCreateDialogOpen s \<and> \<not> creating s then handleCreateKey_begin s else s)"
| "keys_step (CreateSettled resp) s = handleCreateKey_created resp s"
| "keys_step (CreateReloaded resp) s = handleCreateKey_reloaded resp s"
| "keys_step (ClickDelete i answer) s =
     (if \<not> loading_keys s \<and> \<not> truthy (error_keys s) \<and> i < length (keys s)
      then handleDeleteKey_begin (\<lambda>_. answer) (id_key (keys s ! i)) (name_key (keys s ! i)) s
      else s)"
| "keys_step (DeleteSettled resp) s = handleDeleteKey_deleted resp s"
| "keys_step (DeleteReloaded resp) s = handleDeleteKey_reloaded resp s"
| "keys_step (LoadSettled resp) s = loadApiKeys_settle resp s"
| "keys_step RetryLoad s =
     (if \<not> loading_keys s \<and> truthy (error_keys s) then loadApiKeys_begin s else s)"
| "keys_step ClickCopy s =
     (case createdKey s of
        None \<Rightarrow> s
      | Some k \<Rightarrow> if showCreatedKey s \<and> k \<noteq> [] then copyToClipboard k s else s)"
| "keys_step CloseReveal s = (if showCreatedKey s then handleCloseCreatedKeyDialog s else s)"

fun keys_run :: "keys_event list \<Rightarrow> keys_state \<Rightarrow> keys_state" where
  "keys_run [] s = s"
| "keys_run (e # es) s = keys_run es (keys_step e s)"

text \<open>
  Everything the page's code can read: the state without the clipboard, which the page
  only ever writes.
\<close>

definition readable :: "keys_state \<Rightarrow> keys_state" where
  "readable s = s\<lparr>clipboard := None\<rparr>"

definition keys_mount :: "browser \<Rightarrow> keys_state" where
  "keys_mount b =
     loadApiKeys_begin
       \<lparr>auth_token = auth_token b, user = user b, location = location b,
        toasts = toasts b, clipboard = clipboard b, calls = calls b, settled = settled b,
        keys = [], loading_keys = True, error_keys = None, isCreateDialogOpen = False,
        newKeyName = [], createdKey = None, showCreatedKey = False, creating = False\<rparr>"

text \<open>Example data for the API keys page.\<close>

definition key0 :: apikey where
  "key0 =
     \<lparr>id_key = ''k1'', name_key = ''CI'', key_prefix = ''bk_live_12'',
      created_at_key = ''2024-01-01'', last_used = None, permissions = [''read''],
      status_key = ''active''\<rparr>"

definition created0 :: created_key where
  "created0 =
     \<lparr>id_key = ''k1'', name_key = ''CI'', key_prefix = ''bk_live_12'',
      created_at_key = ''2024-01-01'', last_used = None, permissions = [''read''],
      status_key = ''active'', secret_key = ''bk_live_1234567890''\<rparr>"

definition listing0 :: keys_state where
  "listing0 = loadApiKeys_settle (Resolved [key0]) (keys_mount browser0)"

definition revealing0 :: keys_state where
  "revealing0 =
     keys_run [SetCreateDialog True, ChangeName ''CI'', ClickCreate,
               CreateSettled (Resolved created0), CreateReloaded (Resolved [key0])]
       (keys_mount browser0)"

text \<open>The create dialog is open, a name is typed and the creation call is in flight.\<close>

definition creating0 :: keys_state where
  "creating0 =
     keys_run [SetCreateDialog True, ChangeName ''CI'', ClickCreate] listing0"

text \<open>
  Two states are the same but for the secret when they agree on everything except
  \<open>createdKey\<close> and the clipboard, and hold a usable secret or none together.
\<close>

definition same_but_secret :: "keys_state \<Rightarrow> keys_state \<Rightarrow> bool" where
  "same_but_secret s s' =
     (s\<lparr>createdKey := None, clipboard := None\<rparr> = s'\<lparr>createdKey := None, clipboard := None\<rparr> \<and>
      truthy (createdKey s) = truthy (createdKey s'))"

section \<open>Settings page\<close>

record user_settings =
  company_name :: string
  email :: string
  website :: string
  registration_number :: string
  kyc_status :: string

record settings_state = browser +
  settings :: user_settings
  loading_settings :: bool
  saving :: bool
  error_settings :: "string option"

definition loadSettings_begin :: "settings_state \<Rightarrow> settings_state" where
  "loadSettings_begin s =
     s\<lparr>loading_settings := True, error_settings := None, calls := calls s @ [GetSettings]\<rparr>"

definition loadSettings_settle :: "user_settings response \<Rightarrow> settings_state \<Rightarrow> settings_state" where
  "loadSettings_settle resp s =
     (case resp of
        Resolved data \<Rightarrow> s\<lparr>settings := data, loading_settings := False\<rparr>
      | Rejected m \<Rightarrow>
          if unauthorized m then (logout s)\<lparr>loading_settings := False\<rparr>
          else s\<lparr>error_settings := Some (message_or m ''Failed to load settings''),
                 loading_settings := False\<rparr>)"

text \<open>
  \<^verbatim>\<open>handleSave\<close> up to \<^verbatim>\<open>await api.updateSettings\<close>, and from there on.  The payload
  of the call is not bound to anything.
\<close>

definition handleSave_begin :: "settings_state \<Rightarrow> settings_state" where
  "handleSave_begin s =
     s\<lparr>saving := True,
       calls := calls s @
         [UpdateSettings (company_name (settings s)) (email (settings s)) (website (settings s))]\<rparr>"

definition handleSave_settle :: "'a response \<Rightarrow> settings_state \<Rightarrow> settings_state" where
  "handleSave_settle resp s =
     (case resp of
        Resolved _ \<Rightarrow>
          (notify ''Success'' ''Settings updated successfully'' False s)\<lparr>saving := False\<rparr>
      | Rejected m \<Rightarrow>
          (notify ''Error'' (message_or m ''Failed to update settings'') True s)
            \<lparr>saving := False\<rparr>)"

definition settings0 :: settings_state where
  "settings0 =
     \<lparr>auth_token = Some ''token'', user = Some ''alice'', location = ''/dashboard/settings'',
      toasts = [], clipboard = None, calls = [GetSettings], settled = [0],
      settings = \<lparr>company_name = ''Acme'', email = ''ops@acme.test'',
                  website = ''https://acme.test'', registration_number = ''R-1'',
                  kyc_status = ''verified''\<rparr>,
      loading_settings = False, saving = False, error_settings = None\<rparr>"

section \<open>Treasury page\<close>



















section \<open>Facts about the Transactions page\<close>

lemmas tx_handler_defs =
  changeSearch_def changeFilter_def handleSearch_def clickPrevious_def clickNext_def
  clickRetry_def after_render_def loadTransactions_begin_def loadTransactions_settle_def
  logout_def

lemmas tx_example_defs =
  browser0_def tx0_def all_page_def settled_page_def full_page_def tx_mount_def
  tx_unmounted_def mk_params_def pending_def pagination_shown_def retry_shown_def truthy_def

lemma shown_after_render: "shown (after_render old new) = shown new"
  by (simp add: after_render_def loadTransactions_begin_def shown_def)

lemma shown_settle_resolved:
  "shown (loadTransactions_settle (Resolved d) s) = (d_transactions d, d_total d)"
  by (simp add: loadTransactions_settle_def shown_def)

lemma shown_settle_rejected: "shown (loadTransactions_settle (Rejected m) s) = shown s"
  by (simp add: loadTransactions_settle_def shown_def logout_def)

lemma shown_settled_update: "shown (s\<lparr>settled := ks\<rparr>) = shown s"
  by (simp add: shown_def)

lemma shown_step:
  "shown (tx_step e s) =
     (case e of
        Settle k (Resolved d) \<Rightarrow> if pending k s then (d_transactions d, d_total d) else shown s
      | _ \<Rightarrow> shown s)"
proof (cases e)
  case (Settle k resp)
  then show ?thesis
    by (cases resp)
      (simp_all add: shown_after_render shown_settle_resolved shown_settle_rejected
        shown_settled_update)
qed (simp_all add: tx_handler_defs shown_def)






text \<open>
  C1, as stated, fails.  The page mounts (request 0, all statuses), the user selects the
  filter \<open>settled\<close> (request 1), the newer request resolves first and is displayed, and
  then the response of request 0 arrives: it is applied, so the table shows the result
  of the superseded request.
\<close>

theorem stale_response_is_applied:
  "calls (tx_step (ChangeFilter ''settled'') (tx_mount browser0)) =
     [GetTransactions \<lparr>p_page = 1, p_limit = 10, p_search = None, p_filter = None\<rparr>,
      GetTransactions \<lparr>p_page = 1, p_limit = 10, p_search = None, p_filter = Some ''settled''\<rparr>] \<and>
   shown (tx_run [ChangeFilter ''settled'', Settle 1 (Resolved settled_page)] (tx_mount browser0)) =
     ([], 0) \<and>
   shown (tx_run [ChangeFilter ''settled'', Settle 1 (Resolved settled_page),
                  Settle 0 (Resolved all_page)] (tx_mount browser0)) = ([tx0], 1)"
  by (simp add: tx_handler_defs tx_example_defs shown_def)

text \<open>
  C1, amended: whatever the order in which requests were issued, the items and the total
  displayed are those of the response that resolved last; every response that resolves
  is applied, also one of a request issued before a request whose response is already
  displayed.
\<close>

theorem last_resolved_response_wins:
  "deliverable evs s \<Longrightarrow>
     shown (tx_run evs s) = (case last_resolved evs of None \<Rightarrow> shown s | Some p \<Rightarrow> p)"
proof (induction evs arbitrary: s)
  case Nil
  then show ?case by simp
next
  case (Cons e es)
  then have ih: "shown (tx_run es (tx_step e s)) =
      (case last_resolved es of None \<Rightarrow> shown (tx_step e s) | Some p \<Rightarrow> p)"
    by simp
  show ?case
  proof (cases "last_resolved es")
    case (Some p)
    with ih show ?thesis by simp
  next
    case None
    with ih Cons.prems show ?thesis
      by (simp add: shown_step split: tx_event.splits response.splits)
  qed
qed

theorem last_resolved_response_wins_witness:
  "deliverable [ChangeFilter ''failed'', Settle 1 (Resolved full_page),
                Settle 0 (Rejected (Some ''timeout''))] (tx_mount browser0) \<and>
   shown (tx_run [ChangeFilter ''failed'', Settle 1 (Resolved full_page),
                  Settle 0 (Rejected (Some ''timeout''))] (tx_mount browser0)) =
     (d_transactions full_page, d_total full_page)"
proof -
  have d: "deliverable [ChangeFilter ''failed'', Settle 1 (Resolved full_page),
                Settle 0 (Rejected (Some ''timeout''))] (tx_mount browser0)"
    by (simp add: tx_handler_defs tx_example_defs)
  have l: "last_resolved [ChangeFilter ''failed'', Settle 1 (Resolved full_page),
                Settle 0 (Rejected (Some ''timeout''))] =
             Some (d_transactions full_page, d_total full_page)"
    by simp
  have "shown (tx_run [ChangeFilter ''failed'', Settle 1 (Resolved full_page),
                  Settle 0 (Rejected (Some ''timeout''))] (tx_mount browser0)) =
          (d_transactions full_page, d_total full_page)"
    unfolding last_resolved_response_wins [OF d] l by simp
  with d show ?thesis by (rule conjI)
qed

text \<open>
  C5 at page 3: selecting a status filter leaves the page number at 3 and the refetch it
  triggers asks for page 3 of the filtered list; typing in the search box issues no
  request.
\<close>

theorem changeFilter_keeps_page:
  "page at_page3 = 3 \<and>
   page (tx_step (ChangeFilter ''settled'') at_page3) = 3 \<and>
   calls (tx_step (ChangeFilter ''settled'') at_page3) =
     calls at_page3 @
     [GetTransactions \<lparr>p_page = 3, p_limit = 10, p_search = None, p_filter = Some ''settled''\<rparr>] \<and>
   calls (tx_step (ChangeSearch ''alice'') at_page3) = calls at_page3"
  by (simp add: at_page3_def on_page3_def tx_handler_defs tx_example_defs)



text \<open>
  C10: \<^verbatim>\<open>handleSearch\<close> on page \<open>p > 1\<close> issues two requests, first one from the
  handler with the page \<open>p\<close> of the current render, then one with page 1 from the effect
  that follows the change of page; on page 1 it issues one request, with page 1.
\<close>

theorem handleSearch_requests:
  "(1 < page s \<longrightarrow>
      calls (loadTransactions_begin s (s\<lparr>page := 1\<rparr>)) = calls s @ [GetTransactions (mk_params s)] \<and>
      calls (handleSearch s) =
        calls s @ [GetTransactions (mk_params s), GetTransactions (mk_params (s\<lparr>page := 1\<rparr>))] \<and>
      p_page (mk_params s) = page s \<and> p_page (mk_params (s\<lparr>page := 1\<rparr>)) = 1) \<and>
   (page s = 1 \<longrightarrow>
      calls (handleSearch s) = calls s @ [GetTransactions (mk_params s)] \<and>
      p_page (mk_params s) = 1)"
  by (simp add: handleSearch_def after_render_def loadTransactions_begin_def mk_params_def)

theorem handleSearch_requests_witness:
  "1 < page at_page3 \<and>
   calls (handleSearch at_page3) =
     calls at_page3 @
     [GetTransactions \<lparr>p_page = 3, p_limit = 10, p_search = None, p_filter = None\<rparr>,
      GetTransactions \<lparr>p_page = 1, p_limit = 10, p_search = None, p_filter = None\<rparr>] \<and>
   page (tx_mount browser0) = 1 \<and>
   calls (handleSearch (tx_mount browser0)) =
     calls (tx_mount browser0) @
     [GetTransactions \<lparr>p_page = 1, p_limit = 10, p_search = None, p_filter = None\<rparr>]"
proof -
  have p3: "page at_page3 = 3" and s3: "search at_page3 = []" and f3: "filter_tx at_page3 = ''all''"
    by (simp_all add: at_page3_def on_page3_def tx_handler_defs tx_example_defs)
  have p1: "page (tx_mount browser0) = 1" and s1: "search (tx_mount browser0) = []"
    and f1: "filter_tx (tx_mount browser0) = ''all''"
    by (simp_all add: tx_handler_defs tx_example_defs)
  from handleSearch_requests [of at_page3] handleSearch_requests [of "tx_mount browser0"]
  show ?thesis
    by (simp add: p3 s3 f3 p1 s1 f1 mk_params_def)
qed

section \<open>Facts about the API keys and Settings pages\<close>

lemmas keys_handler_defs =
  handleCreateKey_begin_def handleCreateKey_created_def handleCreateKey_reloaded_def
  handleDeleteKey_begin_def handleDeleteKey_deleted_def handleDeleteKey_reloaded_def
  loadApiKeys_begin_def loadApiKeys_settle_def copyToClipboard_def
  handleCloseCreatedKeyDialog_def notify_def logout_def

lemmas keys_example_defs =
  browser0_def key0_def created0_def listing0_def revealing0_def keys_mount_def trim_def
  is_space_def truthy_def

lemma keys_state_fields:
  obtains a1 a2 a3 a4 a5 a6 a7 a8 a9 a10 a11 a12 a13 a14 a15 where
    "s = \<lparr>auth_token = a1, user = a2, location = a3, toasts = a4, clipboard = a5, calls = a6,
          settled = a7, keys = a8, loading_keys = a9, error_keys = a10,
          isCreateDialogOpen = a11, newKeyName = a12, createdKey = a13, showCreatedKey = a14,
          creating = a15\<rparr>"
  by (cases s) auto

lemma same_but_secret_step:
  assumes "same_but_secret s s'"
  shows "same_but_secret (keys_step e s) (keys_step e s')"
proof -
  obtain a1 a2 a3 a4 a5 a6 a7 a8 a9 a10 a11 a12 a13 a14 a15 where
    s: "s = \<lparr>auth_token = a1, user = a2, location = a3, toasts = a4, clipboard = a5,
      calls = a6, settled = a7, keys = a8, loading_keys = a9, error_keys = a10,
      isCreateDialogOpen = a11, newKeyName = a12, createdKey = a13, showCreatedKey = a14,
      creating = a15\<rparr>"
    by (rule keys_state_fields)
  obtain b1 b2 b3 b4 b5 b6 b7 b8 b9 b10 b11 b12 b13 b14 b15 where
    s': "s' = \<lparr>auth_token = b1, user = b2, location = b3, toasts = b4, clipboard = b5,
      calls = b6, settled = b7, keys = b8, loading_keys = b9, error_keys = b10,
      isCreateDialogOpen = b11, newKeyName = b12, createdKey = b13, showCreatedKey = b14,
      creating = b15\<rparr>"
    by (rule keys_state_fields)
  have eqs: "a1 = b1" "a2 = b2" "a3 = b3" "a4 = b4" "a6 = b6" "a7 = b7" "a8 = b8" "a9 = b9"
    "a10 = b10" "a11 = b11" "a12 = b12" "a14 = b14" "a15 = b15"
    and tr: "truthy a13 = truthy b13"
    using assms unfolding s s' by (simp_all add: same_but_secret_def)
  show ?thesis
  proof (cases e)
    case ClickCopy
    then show ?thesis
      unfolding s s' eqs
      using tr
      by (cases a13; cases b13) (simp_all add: same_but_secret_def keys_handler_defs truthy_def)
  next
    case (CreateSettled resp)
    then show ?thesis
      unfolding s s' eqs
      using tr by (cases resp) (simp_all add: same_but_secret_def keys_handler_defs)
  qed (simp_all add: s s' eqs tr same_but_secret_def keys_handler_defs split: response.splits)
qed

lemma readable_step:
  assumes "readable s = readable s'"
  shows "readable (keys_step e s) = readable (keys_step e s')"
proof -
  obtain a1 a2 a3 a4 a5 a6 a7 a8 a9 a10 a11 a12 a13 a14 a15 where
    s: "s = \<lparr>auth_token = a1, user = a2, location = a3, toasts = a4, clipboard = a5,
      calls = a6, settled = a7, keys = a8, loading_keys = a9, error_keys = a10,
      isCreateDialogOpen = a11, newKeyName = a12, createdKey = a13, showCreatedKey = a14,
      creating = a15\<rparr>"
    by (rule keys_state_fields)
  obtain b1 b2 b3 b4 b5 b6 b7 b8 b9 b10 b11 b12 b13 b14 b15 where
    s': "s' = \<lparr>auth_token = b1, user = b2, location = b3, toasts = b4, clipboard = b5,
      calls = b6, settled = b7, keys = b8, loading_keys = b9, error_keys = b10,
      isCreateDialogOpen = b11, newKeyName = b12, createdKey = b13, showCreatedKey = b14,
      creating = b15\<rparr>"
    by (rule keys_state_fields)
  have eqs: "a1 = b1" "a2 = b2" "a3 = b3" "a4 = b4" "a6 = b6" "a7 = b7" "a8 = b8" "a9 = b9"
    "a10 = b10" "a11 = b11" "a12 = b12" "a13 = b13" "a14 = b14" "a15 = b15"
    using assms unfolding s s' by (simp_all add: readable_def)
  show ?thesis
  proof (cases e)
    case ClickCopy
    then show ?thesis
      unfolding s s' eqs
      by (cases b13) (simp_all add: readable_def keys_handler_defs)
  qed (simp_all add: s s' eqs readable_def keys_handler_defs split: response.splits)
qed

lemma same_but_secret_run:
  "same_but_secret s s' \<Longrightarrow> same_but_secret (keys_run es s) (keys_run es s')"
proof (induction es arbitrary: s s')
  case Nil
  then show ?case by simp
next
  case (Cons e es)
  from Cons.prems have "same_but_secret (keys_step e s) (keys_step e s')"
    by (rule same_but_secret_step)
  then have "same_but_secret (keys_run es (keys_step e s)) (keys_run es (keys_step e s'))"
    by (rule Cons.IH)
  then show ?case by simp
qed

lemma readable_run:
  "readable s = readable s' \<Longrightarrow> readable (keys_run es s) = readable (keys_run es s')"
proof (induction es arbitrary: s s')
  case Nil
  then show ?case by simp
next
  case (Cons e es)
  from Cons.prems have "readable (keys_step e s) = readable (keys_step e s')"
    by (rule readable_step)
  then have "readable (keys_run es (keys_step e s)) = readable (keys_run es (keys_step e s'))"
    by (rule Cons.IH)
  then show ?case by simp
qed

lemma close_forgets:
  assumes "same_but_secret s s'"
  shows "readable (handleCloseCreatedKeyDialog s) = readable (handleCloseCreatedKeyDialog s')"
proof -
  obtain a1 a2 a3 a4 a5 a6 a7 a8 a9 a10 a11 a12 a13 a14 a15 where
    s: "s = \<lparr>auth_token = a1, user = a2, location = a3, toasts = a4, clipboard = a5,
      calls = a6, settled = a7, keys = a8, loading_keys = a9, error_keys = a10,
      isCreateDialogOpen = a11, newKeyName = a12, createdKey = a13, showCreatedKey = a14,
      creating = a15\<rparr>"
    by (rule keys_state_fields)
  obtain b1 b2 b3 b4 b5 b6 b7 b8 b9 b10 b11 b12 b13 b14 b15 where
    s': "s' = \<lparr>auth_token = b1, user = b2, location = b3, toasts = b4, clipboard = b5,
      calls = b6, settled = b7, keys = b8, loading_keys = b9, error_keys = b10,
      isCreateDialogOpen = b11, newKeyName = b12, createdKey = b13, showCreatedKey = b14,
      creating = b15\<rparr>"
    by (rule keys_state_fields)
  show ?thesis
    using assms unfolding s s'
    by (simp add: same_but_secret_def readable_def handleCloseCreatedKeyDialog_def)
qed

lemma created_same_but_secret:
  "secret_key r \<noteq> [] \<Longrightarrow> secret_key r' \<noteq> [] \<Longrightarrow>
     same_but_secret (handleCreateKey_created (Resolved r) s)
       (handleCreateKey_created (Resolved r') s)"
  by (simp add: same_but_secret_def handleCreateKey_created_def loadApiKeys_begin_def
      truthy_def)

text \<open>
  C2 on a mutation: the key list is loaded in a session with a token, the user confirms
  the deletion of key \<open>k1\<close>, and the call is rejected with the message
  \<^verbatim>\<open>401 Unauthorized\<close>.  The token and the profile stay in storage and the location is
  unchanged; the message goes to a toast.  It is the same when creating a key and when
  saving the settings.  The same rejection of the list request clears both and goes to
  the login view.
\<close>

theorem mutation_keeps_session_on_unauthorized:
  "unauthorized (Some ''401 Unauthorized'') \<and>
   auth_token (handleDeleteKey_deleted (Rejected (Some ''401 Unauthorized''))
                 (handleDeleteKey_begin (\<lambda>_. True) ''k1'' ''CI'' listing0)) = Some ''token'' \<and>
   user (handleDeleteKey_deleted (Rejected (Some ''401 Unauthorized''))
           (handleDeleteKey_begin (\<lambda>_. True) ''k1'' ''CI'' listing0)) = Some ''alice'' \<and>
   location (handleDeleteKey_deleted (Rejected (Some ''401 Unauthorized''))
               (handleDeleteKey_begin (\<lambda>_. True) ''k1'' ''CI'' listing0)) = ''/dashboard'' \<and>
   toasts (handleDeleteKey_deleted (Rejected (Some ''401 Unauthorized''))
             (handleDeleteKey_begin (\<lambda>_. True) ''k1'' ''CI'' listing0)) =
     [\<lparr>title = ''Error'', description = ''401 Unauthorized'', destructive = True\<rparr>] \<and>
   auth_token (handleCreateKey_created (Rejected (Some ''401 Unauthorized'')) listing0) =
     Some ''token'' \<and>
   location (handleCreateKey_created (Rejected (Some ''401 Unauthorized'')) listing0) =
     ''/dashboard'' \<and>
   auth_token (handleSave_settle (Rejected (Some ''401 Unauthorized''))
                 (handleSave_begin settings0)) = Some ''token'' \<and>
   location (handleSave_settle (Rejected (Some ''401 Unauthorized''))
               (handleSave_begin settings0)) = ''/dashboard/settings'' \<and>
   auth_token (loadApiKeys_settle (Rejected (Some ''401 Unauthorized'')) listing0) = None \<and>
   user (loadApiKeys_settle (Rejected (Some ''401 Unauthorized'')) listing0) = None \<and>
   location (loadApiKeys_settle (Rejected (Some ''401 Unauthorized'')) listing0) = ''/login''"
  by (simp add: keys_handler_defs keys_example_defs unauthorized_def message_or_def
      handleSave_begin_def handleSave_settle_def settings0_def)

text \<open>
  C3: when the creation call resolves, the secret is put in \<open>createdKey\<close> and the reveal
  dialog is opened, and the key list is left as it was; the key list is only ever set to
  what a list request returned, a list of records that have the seven fields of
  \<^verbatim>\<open>ApiKey\<close> and no other.  Closing the reveal dialog sets \<open>createdKey\<close> to null, and
  from then on everything the page can read is the same whatever the secret was: two
  runs that differ only in the (non-empty) secret returned, with any events between
  creation and closing and any events after, end in states equal up to the clipboard.
\<close>

theorem secret_only_in_reveal_view:
  "createdKey (handleCreateKey_created (Resolved r) s) = Some (secret_key r) \<and>
   showCreatedKey (handleCreateKey_created (Resolved r) s) \<and>
   keys (handleCreateKey_created (Resolved r) s) = keys s \<and>
   keys (handleCreateKey_reloaded (Resolved data) s) = data \<and>
   createdKey (handleCloseCreatedKeyDialog s) = None \<and>
   (secret_key r \<noteq> [] \<and> secret_key r' \<noteq> [] \<longrightarrow>
      readable (keys_run later (handleCloseCreatedKeyDialog
                  (keys_run during (handleCreateKey_created (Resolved r) s)))) =
      readable (keys_run later (handleCloseCreatedKeyDialog
                  (keys_run during (handleCreateKey_created (Resolved r') s)))))"
proof (intro conjI impI)
  assume "secret_key r \<noteq> [] \<and> secret_key r' \<noteq> []"
  then have "same_but_secret (handleCreateKey_created (Resolved r) s)
      (handleCreateKey_created (Resolved r') s)"
    by (simp add: created_same_but_secret)
  then have "same_but_secret (keys_run during (handleCreateKey_created (Resolved r) s))
      (keys_run during (handleCreateKey_created (Resolved r') s))"
    by (rule same_but_secret_run)
  then have "readable (handleCloseCreatedKeyDialog
               (keys_run during (handleCreateKey_created (Resolved r) s))) =
             readable (handleCloseCreatedKeyDialog
               (keys_run during (handleCreateKey_created (Resolved r') s)))"
    by (rule close_forgets)
  then show "readable (keys_run later (handleCloseCreatedKeyDialog
                  (keys_run during (handleCreateKey_created (Resolved r) s)))) =
      readable (keys_run later (handleCloseCreatedKeyDialog
                  (keys_run during (handleCreateKey_created (Resolved r') s))))"
    by (rule readable_run)
qed (simp_all add: keys_handler_defs)

theorem secret_only_in_reveal_view_witness:
  "secret_key created0 \<noteq> [] \<and> secret_key (created0\<lparr>secret_key := ''bk_live_other''\<rparr>) \<noteq> [] \<and>
   createdKey (handleCreateKey_created (Resolved created0) creating0) =
     Some ''bk_live_1234567890'' \<and>
   clipboard (keys_run [ClickCopy, CreateReloaded (Resolved [key0])]
                (handleCreateKey_created (Resolved created0) creating0)) =
     Some ''bk_live_1234567890'' \<and>
   readable (keys_run [SetCreateDialog True, ClickCopy]
              (handleCloseCreatedKeyDialog
                (keys_run [ClickCopy, CreateReloaded (Resolved [key0])]
                  (handleCreateKey_created (Resolved created0) creating0)))) =
   readable (keys_run [SetCreateDialog True, ClickCopy]
              (handleCloseCreatedKeyDialog
                (keys_run [ClickCopy, CreateReloaded (Resolved [key0])]
                  (handleCreateKey_created
                    (Resolved (created0\<lparr>secret_key := ''bk_live_other''\<rparr>)) creating0))))"
  (is "?H1 \<and> ?H2 \<and> ?K \<and> ?C \<and> ?R")
proof -
  have h: "?H1 \<and> ?H2"
    by (simp add: created0_def)
  have c: ?C
    by (simp add: creating0_def keys_handler_defs keys_example_defs)
  note inst = secret_only_in_reveal_view [of created0 creating0 "[key0]"
      "created0\<lparr>secret_key := ''bk_live_other''\<rparr>" "[SetCreateDialog True, ClickCopy]"
      "[ClickCopy, CreateReloaded (Resolved [key0])]"]
  from inst have "createdKey (handleCreateKey_created (Resolved created0) creating0) =
      Some (secret_key created0)"
    by (elim conjE)
  then have k: ?K
    by (simp add: created0_def)
  from inst have "?H1 \<and> ?H2 \<longrightarrow> ?R"
    by (elim conjE)
  with h have r: ?R
    by (rule rev_mp)
  from h k c r show ?thesis
    by (elim conjE, intro conjI)
qed

text \<open>
  C4, as stated, fails on the Settings page: a save that succeeds issues the update call
  and nothing after it.
\<close>

theorem save_issues_no_refetch:
  "calls (handleSave_settle (Resolved ()) (handleSave_begin settings0)) =
     [GetSettings, UpdateSettings ''Acme'' ''ops@acme.test'' ''https://acme.test'']"
  by (simp add: handleSave_begin_def handleSave_settle_def settings0_def notify_def)

text \<open>
  C4, amended: after a key is created or deleted with success the page requests the key
  list again and does not touch its local list until that request resolves, when the
  list becomes what the server returned; a Settings save that succeeds requests nothing
  and leaves the form as the user edited it.
\<close>

theorem key_mutations_refetch_list:
  "calls (handleCreateKey_created (Resolved r) s) = calls s @ [GetApiKeys] \<and>
   keys (handleCreateKey_created (Resolved r) s) = keys s \<and>
   keys (handleCreateKey_reloaded (Resolved data) s) = data \<and>
   calls (handleDeleteKey_deleted (Resolved u) s) = calls s @ [GetApiKeys] \<and>
   keys (handleDeleteKey_deleted (Resolved u) s) = keys s \<and>
   keys (handleDeleteKey_reloaded (Resolved data) s) = data \<and>
   calls (handleSave_settle (Resolved x) t) = calls t \<and>
   settings (handleSave_settle (Resolved x) t) = settings t"
  by (simp add: keys_handler_defs handleSave_settle_def)

text \<open>
  C6, as stated, fails: closing the reveal dialog after a creation issues no request; the
  log of calls ends with the list request that \<^verbatim>\<open>handleCreateKey\<close> made.
\<close>

theorem close_reveal_issues_no_request:
  "calls revealing0 = [GetApiKeys, CreateApiKey ''CI'', GetApiKeys] \<and>
   calls (keys_step CloseReveal revealing0) = [GetApiKeys, CreateApiKey ''CI'', GetApiKeys] \<and>
   \<not> loading_keys (keys_step CloseReveal revealing0)"
  by (simp add: keys_handler_defs keys_example_defs)

text \<open>
  C6, amended: closing the reveal dialog sets the held secret to null and closes both
  dialogs, without a request and without a change to the key list; the list request that
  shows the new key by its summary is issued by \<^verbatim>\<open>handleCreateKey\<close> as soon as the
  creation call resolves.
\<close>

theorem close_reveal_clears_secret:
  "createdKey (handleCloseCreatedKeyDialog s) = None \<and>
   \<not> showCreatedKey (handleCloseCreatedKeyDialog s) \<and>
   \<not> isCreateDialogOpen (handleCloseCreatedKeyDialog s) \<and>
   calls (handleCloseCreatedKeyDialog s) = calls s \<and>
   keys (handleCloseCreatedKeyDialog s) = keys s \<and>
   loading_keys (handleCloseCreatedKeyDialog s) = loading_keys s \<and>
   calls (handleCreateKey_created (Resolved r) s) = calls s @ [GetApiKeys] \<and>
   keys (handleCreateKey_reloaded (Resolved data) s) = data"
  by (simp add: keys_handler_defs)

text \<open>
  C9: when the user declines the prompt, \<^verbatim>\<open>handleDeleteKey\<close> returns at once: the whole
  state, with the key list and the log of calls, is what it was.
\<close>

theorem declined_delete_is_noop:
  "\<not> confirm (delete_prompt keyName) \<Longrightarrow>
     handleDeleteKey_begin confirm keyId keyName s = s \<and>
     calls (handleDeleteKey_begin confirm keyId keyName s) = calls s \<and>
     keys (handleDeleteKey_begin confirm keyId keyName s) = keys s"
  by (simp add: handleDeleteKey_begin_def)

theorem declined_delete_is_noop_witness:
  "\<not> (\<lambda>msg. False) (delete_prompt ''CI'') \<and>
   handleDeleteKey_begin (\<lambda>msg. False) ''k1'' ''CI'' listing0 = listing0 \<and>
   calls (handleDeleteKey_begin (\<lambda>msg. False) ''k1'' ''CI'' listing0) = [GetApiKeys] \<and>
   keys (handleDeleteKey_begin (\<lambda>msg. False) ''k1'' ''CI'' listing0) = [key0]"
proof -
  have h: "\<not> (\<lambda>msg. False) (delete_prompt ''CI'')"
    by simp
  have l: "calls listing0 = [GetApiKeys] \<and> keys listing0 = [key0]"
    by (simp add: keys_handler_defs keys_example_defs)
  from declined_delete_is_noop [of "\<lambda>msg. False" "''CI''" "''k1''" listing0, OF h] l h
  show ?thesis by simp
qed

section \<open>Facts about the Treasury page\<close>










end
